theory Spec2Isabelle
  imports Complex_Main "HOL-Library.Multiset"
begin

section \<open>Python values, exceptions and library functions\<close>

text \<open>
  The repository is Python.  A raw quiz submission is a JSON object, so its values are
  modelled by the datatype \<open>pyval\<close>; a JSON object is an association list with
  string keys (keys are distinct, lookup is \<open>map_of\<close>).  Python floats are
  modelled as reals: arithmetic is exact, and the special values inf and nan do not
  occur, except for the nan that \<open>np.mean\<close> returns on an empty list, which is
  the value \<open>NaN\<close> of \<open>npfloat\<close>.
\<close>

datatype pyval =
    PNone
  | PBool bool
  | PInt int
  | PFloat real
  | PStr string
  | PList "pyval list"
  | PDict "(string \<times> pyval) list"

type_synonym pydict = "(string \<times> pyval) list"

text \<open>
  Exceptions are values and carry their message.  The messages that \<open>float\<close>,
  \<open>max\<close>, \<open>sorted\<close> and \<open>fromisoformat\<close> give their exceptions are
  abbreviated (the offending value is not printed).
\<close>

datatype py_error =
    ValueError string
  | TypeError string
  | AttributeError string

fun error_message :: "py_error \<Rightarrow> string" where
  \<comment> \<open>\<open>str(e)\<close>\<close>
  "error_message (ValueError msg) = msg"
| "error_message (TypeError msg) = msg"
| "error_message (AttributeError msg) = msg"

datatype npfloat = Num real | NaN

fun py_type_name :: "pyval \<Rightarrow> string" where
  "py_type_name PNone = ''NoneType''"
| "py_type_name (PBool b) = ''bool''"
| "py_type_name (PInt i) = ''int''"
| "py_type_name (PFloat r) = ''float''"
| "py_type_name (PStr s) = ''str''"
| "py_type_name (PList xs) = ''list''"
| "py_type_name (PDict kvs) = ''dict''"

definition quoted :: "string \<Rightarrow> string" where
  "quoted s = CHR 0x27 # s @ [CHR 0x27]"

definition no_attribute :: "string \<Rightarrow> string \<Rightarrow> py_error" where
  \<comment> \<open>The exception of a failed attribute lookup on an object of the named type.\<close>
  "no_attribute tname attr =
     AttributeError (quoted tname @ '' object has no attribute '' @ quoted attr)"

text \<open>
  A \<open>datetime\<close> is naive (no UTC offset; the count is of microseconds of the
  wall-clock reading) or aware (the count is of microseconds since the epoch in UTC).
  Python orders two naive values and two aware values; ordering a naive and an aware
  value raises \<open>TypeError\<close>.
\<close>

datatype datetime = Naive int | Aware int

fun is_aware :: "datetime \<Rightarrow> bool" where
  "is_aware (Naive n) = False"
| "is_aware (Aware n) = True"

fun instant :: "datetime \<Rightarrow> int" where
  "instant (Naive n) = n"
| "instant (Aware n) = n"

subsection \<open>\<open>str.strip\<close>, \<open>str.replace\<close> and \<open>float\<close>\<close>

definition py_strip :: "char \<Rightarrow> string \<Rightarrow> string" where
  \<comment> \<open>\<open>s.strip(c)\<close> for a one-character argument: every leading and trailing \<open>c\<close> goes.\<close>
  "py_strip c s = rev (dropWhile (\<lambda>x. x = c) (rev (dropWhile (\<lambda>x. x = c) s)))"

definition py_replace :: "char \<Rightarrow> string \<Rightarrow> string \<Rightarrow> string" where
  \<comment> \<open>\<open>s.replace(c, new)\<close> for a one-character pattern: every occurrence is replaced.\<close>
  "py_replace c new s = concat (map (\<lambda>x. if x = c then new else [x]) s)"

definition is_digit :: "char \<Rightarrow> bool" where
  "is_digit c = (48 \<le> (of_char c :: nat) \<and> (of_char c :: nat) \<le> 57)"

definition digit_val :: "char \<Rightarrow> nat" where
  "digit_val c = of_char c - 48"

definition nat_of_digits :: "string \<Rightarrow> nat" where
  "nat_of_digits ds = foldl (\<lambda>n c. 10 * n + digit_val c) 0 ds"

definition py_isspace :: "char \<Rightarrow> bool" where
  "py_isspace c = ((of_char c :: nat) \<in> {9, 10, 11, 12, 13, 28, 29, 30, 31, 32})"

definition split_sign :: "string \<Rightarrow> int \<times> string" where
  "split_sign s =
     (case s of
        [] \<Rightarrow> (1, [])
      | c # r \<Rightarrow> if c = CHR ''+'' then (1, r) else if c = CHR ''-'' then (-1, r) else (1, s))"

definition parse_exponent :: "string \<Rightarrow> int option" where
  "parse_exponent s =
     (case s of
        [] \<Rightarrow> Some 0
      | c # r \<Rightarrow>
          if c = CHR ''e'' \<or> c = CHR ''E'' then
            (let (sg, ds) = split_sign r
             in if ds \<noteq> [] \<and> list_all is_digit ds then Some (sg * int (nat_of_digits ds))
                else None)
          else None)"

definition scale10 :: "real \<Rightarrow> int \<Rightarrow> real" where
  "scale10 x e = (if 0 \<le> e then x * 10 ^ nat e else x / 10 ^ nat (- e))"

definition parse_float :: "string \<Rightarrow> real option" where
  \<comment> \<open>Python's \<open>float(s)\<close> on decimal literals: surrounding white space, a sign,
      digits with an optional fraction, an optional exponent.  The forms \<open>inf\<close>,
      \<open>nan\<close> and digit grouping with \<open>_\<close> are not covered.\<close>
  "parse_float s =
     (let t = rev (dropWhile py_isspace (rev (dropWhile py_isspace s)));
          (sg, u) = split_sign t;
          ip = takeWhile is_digit u;
          r1 = dropWhile is_digit u;
          (fp, r2) = (case r1 of
                        [] \<Rightarrow> ([], [])
                      | c # r \<Rightarrow> if c = CHR ''.'' then (takeWhile is_digit r, dropWhile is_digit r)
                                else ([], r1))
      in if ip = [] \<and> fp = [] then None
         else (case parse_exponent r2 of
                 None \<Rightarrow> None
               | Some e \<Rightarrow>
                   Some (real_of_int sg *
                         scale10 (real (nat_of_digits ip) + real (nat_of_digits fp) / 10 ^ length fp) e)))"

fun py_float :: "pyval \<Rightarrow> py_error + real" where
  "py_float (PStr s) =
     (case parse_float s of
        None \<Rightarrow> Inl (ValueError ''could not convert string to float'')
      | Some r \<Rightarrow> Inr r)"
| "py_float (PInt i) = Inr (real_of_int i)"
| "py_float (PFloat r) = Inr r"
| "py_float (PBool b) = Inr (if b then 1 else 0)"
| "py_float PNone = Inl (TypeError ''float() argument must be a string or a real number'')"
| "py_float (PList xs) = Inl (TypeError ''float() argument must be a string or a real number'')"
| "py_float (PDict kvs) = Inl (TypeError ''float() argument must be a string or a real number'')"

fun accuracy_fraction :: "pyval \<Rightarrow> py_error + real" where
  \<comment> \<open>The expression \<open>float(quiz.accuracy.strip('%')) / 100\<close> of performance.py and
      insights.py; only a \<open>str\<close> has the method \<open>strip\<close>.\<close>
  "accuracy_fraction (PStr s) =
     (case py_float (PStr (py_strip CHR ''%'' s)) of
        Inl e \<Rightarrow> Inl e
      | Inr r \<Rightarrow> Inr (r / 100))"
| "accuracy_fraction v = Inl (no_attribute (py_type_name v) ''strip'')"

section \<open>src/models/student.py\<close>

text \<open>
  A dataclass checks no types when it is built: the fields that
  \<open>preprocess_quiz_submission\<close> copies from the raw mapping hold whatever value the
  mapping held, so they have type \<open>pyval\<close>.
\<close>

record QuizSubmission =
  id_fld :: pyval
  quiz_id :: pyval
  user_id :: pyval
  submitted_at :: datetime
  score :: real
  accuracy :: pyval
  speed :: pyval
  final_score :: pyval
  correct_answers :: pyval
  incorrect_answers :: pyval
  total_questions :: pyval
  response_map :: pyval
  topic :: pyval

section \<open>src/data/data_processor.py\<close>

definition required_fields :: "string list" where
  "required_fields =
     [''id'', ''quiz_id'', ''user_id'', ''submitted_at'', ''score'', ''accuracy'', ''final_score'']"

fun check_required :: "string list \<Rightarrow> pydict \<Rightarrow> py_error option" where
  \<comment> \<open>The loop of lines 16 to 18: the first absent field raises.\<close>
  "check_required [] raw_data = None"
| "check_required (field # rest) raw_data =
     (if map_of raw_data field = None
      then Some (ValueError (''Missing required field: '' @ field))
      else check_required rest raw_data)"

definition dict_get :: "pydict \<Rightarrow> string \<Rightarrow> pyval \<Rightarrow> pyval" where
  \<comment> \<open>\<open>d.get(key, default)\<close>\<close>
  "dict_get d k dflt = (case map_of d k of None \<Rightarrow> dflt | Some v \<Rightarrow> v)"

definition parse_submitted_at :: "(string \<Rightarrow> datetime option) \<Rightarrow> pyval \<Rightarrow> py_error + datetime" where
  \<comment> \<open>Line 21.  \<open>datetime.fromisoformat\<close> is the library's parser, a parameter of the
      model: it returns \<open>None\<close> where the library raises \<open>ValueError\<close>.\<close>
  "parse_submitted_at fromisoformat v =
     (case v of
        PStr s \<Rightarrow>
          (case fromisoformat (py_replace CHR ''Z'' ''+00:00'' s) of
             None \<Rightarrow> Inl (ValueError ''Invalid isoformat string'')
           | Some d \<Rightarrow> Inr d)
      | _ \<Rightarrow> Inl (no_attribute (py_type_name v) ''replace''))"

definition extract_topic :: "pydict \<Rightarrow> py_error + pyval" where
  \<comment> \<open>Line 24: \<open>raw_data.get('quiz', {}).get('topic', 'Unknown')\<close>.\<close>
  "extract_topic raw_data =
     (case dict_get raw_data ''quiz'' (PDict []) of
        PDict quiz \<Rightarrow> Inr (dict_get quiz ''topic'' (PStr ''Unknown''))
      | v \<Rightarrow> Inl (no_attribute (py_type_name v) ''get''))"

definition preprocess_quiz_submission ::
  "(string \<Rightarrow> datetime option) \<Rightarrow> pydict \<Rightarrow> py_error + QuizSubmission" where
  "preprocess_quiz_submission fromisoformat raw_data =
     (case check_required required_fields raw_data of
        Some e \<Rightarrow> Inl e
      | None \<Rightarrow>
          (case parse_submitted_at fromisoformat (the (map_of raw_data ''submitted_at'')) of
             Inl e \<Rightarrow> Inl e
           | Inr sub_at \<Rightarrow>
               (case extract_topic raw_data of
                  Inl e \<Rightarrow> Inl e
                | Inr tp \<Rightarrow>
                    (case py_float (the (map_of raw_data ''score'')) of
                       Inl e \<Rightarrow> Inl e
                     | Inr sc \<Rightarrow>
                         Inr \<lparr> id_fld = the (map_of raw_data ''id''),
                               quiz_id = the (map_of raw_data ''quiz_id''),
                               user_id = the (map_of raw_data ''user_id''),
                               submitted_at = sub_at,
                               score = sc,
                               accuracy = the (map_of raw_data ''accuracy''),
                               speed = dict_get raw_data ''speed'' (PStr ''0''),
                               final_score = the (map_of raw_data ''final_score''),
                               correct_answers = dict_get raw_data ''correct_answers'' (PInt 0),
                               incorrect_answers = dict_get raw_data ''incorrect_answers'' (PInt 0),
                               total_questions = dict_get raw_data ''total_questions'' (PInt 0),
                               response_map = dict_get raw_data ''response_map'' (PDict []),
                               topic = tp \<rparr>))))"

fun process_historical_data ::
  "(string \<Rightarrow> datetime option) \<Rightarrow> pydict list \<Rightarrow> py_error + QuizSubmission list" where
  \<comment> \<open>Lines 42 to 52: a \<open>ValueError\<close> skips the record, any other exception leaves
      the loop and the function.\<close>
  "process_historical_data fromisoformat [] = Inr []"
| "process_historical_data fromisoformat (submission # rest) =
     (case preprocess_quiz_submission fromisoformat submission of
        Inr processed \<Rightarrow>
          (case process_historical_data fromisoformat rest of
             Inl e \<Rightarrow> Inl e
           | Inr processed_data \<Rightarrow> Inr (processed # processed_data))
      | Inl (ValueError msg) \<Rightarrow> process_historical_data fromisoformat rest
      | Inl e \<Rightarrow> Inl e)"


subsection \<open>An instance of \<open>datetime.fromisoformat\<close>\<close>

text \<open>
  The format \<open>YYYY-MM-DDTHH:MM:SS\<close> with an optional offset \<open>+HH:MM\<close> or
  \<open>-HH:MM\<close>, which every version of the library accepts.  It instantiates the parameter
  of \<open>preprocess_quiz_submission\<close> in the examples.
\<close>

definition digits_at :: "string \<Rightarrow> nat \<Rightarrow> nat \<Rightarrow> nat option" where
  "digits_at s i n =
     (let ds = take n (drop i s)
      in if length ds = n \<and> list_all is_digit ds then Some (nat_of_digits ds) else None)"

definition days_in_month :: "nat \<Rightarrow> nat \<Rightarrow> nat" where
  "days_in_month y m =
     (if m = 2 then (if y mod 4 = 0 \<and> (y mod 100 \<noteq> 0 \<or> y mod 400 = 0) then 29 else 28)
      else if m = 4 \<or> m = 6 \<or> m = 9 \<or> m = 11 then 30 else 31)"

definition days_from_civil :: "nat \<Rightarrow> nat \<Rightarrow> nat \<Rightarrow> int" where
  \<comment> \<open>Days from 1970-01-01 to the given date of the proleptic Gregorian calendar.\<close>
  "days_from_civil y m d =
     (let y' = (if m \<le> 2 then int y - 1 else int y);
          era = y' div 400;
          yoe = y' - era * 400;
          mp = (int m + 9) mod 12;
          doy = (153 * mp + 2) div 5 + int d - 1;
          doe = yoe * 365 + yoe div 4 - yoe div 100 + doy
      in era * 146097 + doe - 719468)"

definition fromisoformat_seconds :: "string \<Rightarrow> datetime option" where
  "fromisoformat_seconds s =
     (if (length s = 19 \<or> length s = 25) \<and> s ! 4 = CHR ''-'' \<and> s ! 7 = CHR ''-''
         \<and> s ! 13 = CHR '':'' \<and> s ! 16 = CHR '':''
      then
        (case (digits_at s 0 4, digits_at s 5 2, digits_at s 8 2,
               digits_at s 11 2, digits_at s 14 2, digits_at s 17 2) of
           (Some y, Some mo, Some d, Some h, Some mi, Some sec) \<Rightarrow>
             if 1 \<le> y \<and> 1 \<le> mo \<and> mo \<le> 12 \<and> 1 \<le> d \<and> d \<le> days_in_month y mo
                \<and> h < 24 \<and> mi < 60 \<and> sec < 60
             then
               (let wall = (((days_from_civil y mo d * 24 + int h) * 60 + int mi) * 60 + int sec)
                           * 1000000
                in if length s = 19 then Some (Naive wall)
                   else
                     (case (digits_at s 20 2, digits_at s 23 2) of
                        (Some oh, Some om) \<Rightarrow>
                          if (s ! 19 = CHR ''+'' \<or> s ! 19 = CHR ''-'') \<and> s ! 22 = CHR '':''
                             \<and> oh < 24 \<and> om < 60
                          then Some (Aware (wall - (if s ! 19 = CHR ''-'' then -1 else 1)
                                                   * (int oh * 60 + int om) * 60 * 1000000))
                          else None
                      | _ \<Rightarrow> None))
             else None
         | _ \<Rightarrow> None)
      else None)"

section \<open>src/analysis/performance.py\<close>

text \<open>
  A Python \<open>dict\<close> keeps its keys in insertion order: it is an association list.
  A key must be hashable (a list or a dict is not: \<open>TypeError\<close>), and two keys are
  the same key when they are equal in Python's sense: strings by their characters,
  \<open>None\<close> with itself, numbers and booleans by their numeric value.
\<close>

fun py_hashable :: "pyval \<Rightarrow> bool" where
  "py_hashable (PList xs) = False"
| "py_hashable (PDict kvs) = False"
| "py_hashable v = True"

fun py_num :: "pyval \<Rightarrow> real option" where
  "py_num (PBool b) = Some (if b then 1 else 0)"
| "py_num (PInt i) = Some (real_of_int i)"
| "py_num (PFloat r) = Some r"
| "py_num v = None"

definition py_eq :: "pyval \<Rightarrow> pyval \<Rightarrow> bool" where
  "py_eq a b =
     (case a of
        PStr s \<Rightarrow> (case b of PStr t \<Rightarrow> s = t | _ \<Rightarrow> False)
      | PNone \<Rightarrow> (case b of PNone \<Rightarrow> True | _ \<Rightarrow> False)
      | _ \<Rightarrow> (case (py_num a, py_num b) of (Some x, Some y) \<Rightarrow> x = y | _ \<Rightarrow> False))"

fun dict_find :: "pyval \<Rightarrow> (pyval \<times> 'v) list \<Rightarrow> 'v option" where
  "dict_find k [] = None"
| "dict_find k ((k', v) # d) = (if py_eq k' k then Some v else dict_find k d)"

fun dict_modify :: "pyval \<Rightarrow> ('v \<Rightarrow> 'v) \<Rightarrow> (pyval \<times> 'v) list \<Rightarrow> (pyval \<times> 'v) list" where
  \<comment> \<open>\<open>d[k] = f(d[k])\<close> for a key that is present: the entry keeps its place.\<close>
  "dict_modify k f [] = []"
| "dict_modify k f ((k', v) # d) =
     (if py_eq k' k then (k', f v) # d else (k', v) # dict_modify k f d)"

definition dict_setdefault :: "pyval \<Rightarrow> 'v \<Rightarrow> (pyval \<times> 'v) list \<Rightarrow> (pyval \<times> 'v) list" where
  \<comment> \<open>\<open>if k not in d: d[k] = v\<close>: a new key goes to the end.\<close>
  "dict_setdefault k v d = (if dict_find k d = None then d @ [(k, v)] else d)"

definition unhashable :: "pyval \<Rightarrow> py_error" where
  "unhashable v = TypeError (''unhashable type: '' @ quoted (py_type_name v))"

fun topic_loop ::
  "QuizSubmission list \<Rightarrow> (pyval \<times> real) list \<times> (pyval \<times> nat) list
     \<Rightarrow> py_error + (pyval \<times> real) list \<times> (pyval \<times> nat) list" where
  \<comment> \<open>The loop of lines 17 to 23 on the state \<open>(topic_scores, topic_counts)\<close>.\<close>
  "topic_loop [] st = Inr st"
| "topic_loop (quiz # rest) (topic_scores, topic_counts) =
     (if \<not> py_hashable (topic quiz) then Inl (unhashable (topic quiz))
      else
        (case accuracy_fraction (accuracy quiz) of
           Inl e \<Rightarrow> Inl e
         | Inr a \<Rightarrow>
             topic_loop rest
               (dict_modify (topic quiz) (\<lambda>s. s + a) (dict_setdefault (topic quiz) 0 topic_scores),
                dict_modify (topic quiz) (\<lambda>c. c + 1) (dict_setdefault (topic quiz) 0 topic_counts))))"

definition analyze_topic_performance :: "QuizSubmission list \<Rightarrow> py_error + (pyval \<times> real) list" where
  "analyze_topic_performance quiz_history =
     (case topic_loop quiz_history ([], []) of
        Inl e \<Rightarrow> Inl e
      | Inr (topic_scores, topic_counts) \<Rightarrow>
          Inr (map (\<lambda>(tp, (sc, cnt)). (tp, sc / real cnt))
                 (zip (map fst topic_scores) (zip (map snd topic_scores) (map snd topic_counts)))))"

definition WEAKNESS_THRESHOLD :: real where
  "WEAKNESS_THRESHOLD = 6 / 10"

definition identify_weak_areas :: "(pyval \<times> real) list \<Rightarrow> pyval list" where
  "identify_weak_areas topic_performance =
     map fst (filter (\<lambda>(tp, sc). sc < WEAKNESS_THRESHOLD) topic_performance)"

definition comparable_dates :: "QuizSubmission list \<Rightarrow> bool" where
  \<comment> \<open>All naive or all aware: no comparison of two \<open>submitted_at\<close> values raises.\<close>
  "comparable_dates qs =
     (case qs of
        [] \<Rightarrow> True
      | q # rest \<Rightarrow>
          list_all (\<lambda>r. is_aware (submitted_at r) = is_aware (submitted_at q)) rest)"

definition date_key :: "QuizSubmission \<Rightarrow> int" where
  "date_key q = instant (submitted_at q)"

definition sorted_by_date :: "QuizSubmission list \<Rightarrow> py_error + QuizSubmission list" where
  \<comment> \<open>\<open>sorted(quiz_history, key=lambda x: x.submitted_at)\<close>.  Python's sort is stable, and
      the stable ordering of a list is unique: \<open>sort_key\<close> computes it.  A list that
      mixes naive and aware values makes the sort compare two of them, which raises.\<close>
  "sorted_by_date qs =
     (if comparable_dates qs then Inr (sort_key date_key qs)
      else Inl (TypeError ''can't compare offset-naive and offset-aware datetimes''))"

fun trend_loop ::
  "QuizSubmission list \<Rightarrow> (pyval \<times> real list) list \<Rightarrow> py_error + (pyval \<times> real list) list" where
  \<comment> \<open>The loop of lines 41 to 44 on the state \<open>topic_trends\<close>.\<close>
  "trend_loop [] topic_trends = Inr topic_trends"
| "trend_loop (quiz # rest) topic_trends =
     (if \<not> py_hashable (topic quiz) then Inl (unhashable (topic quiz))
      else
        (case accuracy_fraction (accuracy quiz) of
           Inl e \<Rightarrow> Inl e
         | Inr a \<Rightarrow>
             trend_loop rest
               (dict_modify (topic quiz) (\<lambda>tr. tr @ [a]) (dict_setdefault (topic quiz) [] topic_trends))))"

definition calculate_improvement_trends ::
  "QuizSubmission list \<Rightarrow> py_error + (pyval \<times> real list) list" where
  "calculate_improvement_trends quiz_history =
     (case sorted_by_date quiz_history of
        Inl e \<Rightarrow> Inl e
      | Inr sorted_quizzes \<Rightarrow> trend_loop sorted_quizzes [])"

record StudentPerformance =
  sp_user_id :: pyval
  quiz_history :: "QuizSubmission list"
  topic_wise_accuracy :: "(pyval \<times> real) list"
  weak_areas :: "pyval list"
  improvement_trends :: "(pyval \<times> real list) list"
  predicted_rank :: "int option"
  recommended_colleges :: "string list option"

definition analyze_student_performance :: "QuizSubmission list \<Rightarrow> py_error + StudentPerformance" where
  "analyze_student_performance history =
     (if history = [] then Inl (ValueError ''Quiz history is empty'')
      else
        (case analyze_topic_performance history of
           Inl e \<Rightarrow> Inl e
         | Inr topic_performance \<Rightarrow>
             (case calculate_improvement_trends history of
                Inl e \<Rightarrow> Inl e
              | Inr trends \<Rightarrow>
                  Inr \<lparr> sp_user_id = user_id (hd history),
                        quiz_history = history,
                        topic_wise_accuracy = topic_performance,
                        weak_areas = identify_weak_areas topic_performance,
                        improvement_trends = trends,
                        predicted_rank = None,
                        recommended_colleges = None \<rparr>)))"


section \<open>src/models/predictor.py\<close>

definition np_mean :: "real list \<Rightarrow> npfloat" where
  \<comment> \<open>\<open>np.mean\<close>: on an empty list it warns and returns nan, it does not raise.\<close>
  "np_mean xs = (if xs = [] then NaN else Num (sum_list xs / real (length xs)))"

fun max_loop :: "QuizSubmission \<Rightarrow> QuizSubmission list \<Rightarrow> QuizSubmission" where
  \<comment> \<open>\<open>max\<close> keeps the first of the greatest elements: a later one replaces the
      current one only when its key is strictly greater.\<close>
  "max_loop best [] = best"
| "max_loop best (q # rest) = max_loop (if date_key best < date_key q then q else best) rest"

definition max_by_date :: "QuizSubmission list \<Rightarrow> py_error + QuizSubmission" where
  \<comment> \<open>\<open>max(performance.quiz_history, key=lambda x: x.submitted_at)\<close>\<close>
  "max_by_date qs =
     (case qs of
        [] \<Rightarrow> Inl (ValueError ''max() arg is an empty sequence'')
      | q # rest \<Rightarrow>
          if comparable_dates qs then Inr (max_loop q rest)
          else Inl (TypeError ''can't compare offset-naive and offset-aware datetimes''))"

definition extract_features :: "StudentPerformance \<Rightarrow> py_error + npfloat list" where
  \<comment> \<open>\<open>RankPredictor._extract_features\<close>; the array of shape (1, 4) is the list of its
      four entries.\<close>
  "extract_features performance =
     (let avg_accuracy = np_mean (map snd (topic_wise_accuracy performance));
          n_weak = length (weak_areas performance);
          avg_improvement =
            np_mean (map (\<lambda>trend. last trend - hd trend)
                       (filter (\<lambda>trend. length trend > 1)
                          (map snd (improvement_trends performance))))
      in case max_by_date (quiz_history performance) of
           Inl e \<Rightarrow> Inl e
         | Inr latest_quiz \<Rightarrow>
             (case py_float (final_score latest_quiz) of
                Inl e \<Rightarrow> Inl e
              | Inr fs \<Rightarrow> Inr [avg_accuracy, Num (real n_weak), avg_improvement, Num fs]))"

text \<open>
  The regressor is scikit-learn's.  Its fitted prediction function is a field of the
  predictor's state: given the feature vector it returns a number or raises.
\<close>

record RankPredictor =
  model_predict :: "npfloat list \<Rightarrow> py_error + real"
  is_trained :: bool

definition py_int :: "real \<Rightarrow> int" where
  \<comment> \<open>\<open>int(x)\<close> on a float truncates towards zero.\<close>
  "py_int x = (if 0 \<le> x then \<lfloor>x\<rfloor> else \<lceil>x\<rceil>)"

definition predict_rank :: "RankPredictor \<Rightarrow> StudentPerformance \<Rightarrow> py_error + int" where
  "predict_rank self performance =
     (if \<not> is_trained self then Inr 5000
      else
        (case extract_features performance of
           Inl e \<Rightarrow> Inl e
         | Inr features \<Rightarrow>
             (case model_predict self features of
                Inl e \<Rightarrow> Inl e
              | Inr predicted \<Rightarrow> Inr (py_int predicted))))"

section \<open>src/utils/constants.py and src/utils/helpers.py\<close>

definition WEAK_PERFORMANCE_THRESHOLD :: real where
  "WEAK_PERFORMANCE_THRESHOLD = 4 / 10"

definition GOOD_PERFORMANCE_THRESHOLD :: real where
  "GOOD_PERFORMANCE_THRESHOLD = 75 / 100"

definition NEET_TOPICS :: "string list" where
  "NEET_TOPICS =
     [''Human Physiology'', ''Body Fluids and Circulation'', ''Reproduction'',
      ''Reproductive Health'', ''Principles of Inheritance and Variation'',
      ''Microbes in Human Welfare'', ''Human Health and Disease'',
      ''Structural Organisation in Animals'']"

definition categorize_performance :: "real \<Rightarrow> string" where
  \<comment> \<open>helpers.py, lines 27 to 33.\<close>
  "categorize_performance acc =
     (if acc \<ge> GOOD_PERFORMANCE_THRESHOLD then ''Good''
      else if acc \<le> WEAK_PERFORMANCE_THRESHOLD then ''Needs Improvement''
      else ''Average'')"


section \<open>src/analysis/insights.py\<close>

fun str_of_nat :: "nat \<Rightarrow> string" where
  "str_of_nat n =
     (if n < 10 then [char_of (48 + n)] else str_of_nat (n div 10) @ [char_of (48 + n mod 10)])"

fun py_str :: "pyval \<Rightarrow> string" where
  \<comment> \<open>\<open>str(v)\<close>.  For a float, a list and a dict the text is Python's \<open>repr\<close>, which
      is not modelled: the type's name stands for it.\<close>
  "py_str (PStr s) = s"
| "py_str PNone = ''None''"
| "py_str (PBool b) = (if b then ''True'' else ''False'')"
| "py_str (PInt i) = (if i < 0 then ''-'' @ str_of_nat (nat (- i)) else str_of_nat (nat i))"
| "py_str v = py_type_name v"

definition py_round2 :: "real \<Rightarrow> real" where
  \<comment> \<open>\<open>round(x, 2)\<close>: to the nearest multiple of 1/100, a tie to the even one.\<close>
  "py_round2 x =
     (let y = x * 100; f = \<lfloor>y\<rfloor>; d = y - of_int f
      in of_int (if d < 1 / 2 then f else if 1 / 2 < d then f + 1
                 else if even f then f else f + 1) / 100)"

definition format_score :: "real \<Rightarrow> string" where
  \<comment> \<open>The f-string \<open>f"{score}%"\<close> for a score with at most two decimals, below 1e16.\<close>
  "format_score x =
     (let c = nat \<lfloor>\<bar>x\<bar> * 100\<rfloor>
      in (if x < 0 then ''-'' else []) @ str_of_nat (c div 100) @ ''.'' @
         (if c mod 10 = 0 then str_of_nat (c mod 100 div 10)
          else str_of_nat (c mod 100 div 10) @ str_of_nat (c mod 10)) @ ''%'')"

record processed_quiz =
  pq_topic :: string
  pq_accuracy :: real
  pq_score :: real
  pq_date :: datetime

fun process_loop ::
  "QuizSubmission list \<Rightarrow> real list \<times> processed_quiz list \<Rightarrow> real list \<times> processed_quiz list" where
  \<comment> \<open>Lines 70 to 82 on the state \<open>(accuracies, processed_quizzes)\<close>: an exception skips
      the rest of the body, so an accuracy can be appended without its quiz.  The text of
      the date is never read, the date is kept as it is.\<close>
  "process_loop [] st = st"
| "process_loop (quiz # rest) (accuracies, processed_quizzes) =
     (case accuracy_fraction (accuracy quiz) of
        Inl e \<Rightarrow> process_loop rest (accuracies, processed_quizzes)
      | Inr a \<Rightarrow>
          (case py_float (final_score quiz) of
             Inl e \<Rightarrow> process_loop rest (accuracies @ [a], processed_quizzes)
           | Inr sc \<Rightarrow>
               process_loop rest
                 (accuracies @ [a],
                  processed_quizzes @
                    [\<lparr> pq_topic = py_str (topic quiz), pq_accuracy = a, pq_score = sc,
                       pq_date = submitted_at quiz \<rparr>])))"

fun stats_add ::
  "string \<Rightarrow> real \<Rightarrow> real \<Rightarrow> (string \<times> real list \<times> real list) list
     \<Rightarrow> (string \<times> real list \<times> real list) list" where
  \<comment> \<open>Lines 95 to 102 for one quiz: the topic's entry is created when absent, then both
      of its lists grow.\<close>
  "stats_add tp a sc [] = [(tp, [a], [sc])]"
| "stats_add tp a sc ((k, accs, scs) # d) =
     (if k = tp then (k, accs @ [a], scs @ [sc]) # d else (k, accs, scs) # stats_add tp a sc d)"

definition topic_stats_of :: "processed_quiz list \<Rightarrow> (string \<times> real list \<times> real list) list" where
  "topic_stats_of processed_quizzes =
     foldl (\<lambda>topic_stats quiz. stats_add (pq_topic quiz) (pq_accuracy quiz) (pq_score quiz) topic_stats)
       [] processed_quizzes"

definition self_categorize_performance :: "real \<Rightarrow> py_error + string" where
  \<comment> \<open>\<open>self._categorize_performance(avg_accuracy)\<close>, line 110.  The class
      \<open>InsightGenerator\<close> defines \<open>__init__\<close>, \<open>_serialize_value\<close>,
      \<open>_safe_process\<close> and \<open>generate_comprehensive_report\<close>, and no
      \<open>_categorize_performance\<close>: the attribute lookup raises.\<close>
  "self_categorize_performance avg_accuracy =
     Inl (no_attribute ''InsightGenerator'' ''_categorize_performance'')"

record topic_insight =
  insight_score :: real
  insight_status :: string
  insight_recommendations :: "string list"

fun insights_loop ::
  "(string \<times> real list \<times> real list) list \<Rightarrow> py_error + (string \<times> topic_insight) list" where
  \<comment> \<open>Lines 106 to 116.\<close>
  "insights_loop [] = Inr []"
| "insights_loop ((tp, accs, scs) # rest) =
     (let avg_accuracy = sum_list accs / real (length accs)
      in case self_categorize_performance avg_accuracy of
           Inl e \<Rightarrow> Inl e
         | Inr status \<Rightarrow>
             (case insights_loop rest of
                Inl e \<Rightarrow> Inl e
              | Inr topic_insights \<Rightarrow>
                  Inr ((tp, \<lparr> insight_score = py_round2 (avg_accuracy * 100),
                              insight_status = status,
                              insight_recommendations =
                                [if avg_accuracy < 6 / 10 then ''Focus on '' @ tp @ '' fundamentals''
                                 else if avg_accuracy < 8 / 10 then ''Practice more '' @ tp @ '' problems''
                                 else ''Maintain performance in '' @ tp] \<rparr>)
                       # topic_insights)))"

record weak_area =
  wa_topic :: string
  wa_current_score :: string
  wa_priority :: string

definition weak_areas_of :: "(string \<times> topic_insight) list \<Rightarrow> weak_area list" where
  \<comment> \<open>Lines 120 to 127.\<close>
  "weak_areas_of topic_insights =
     map (\<lambda>(tp, d). \<lparr> wa_topic = tp, wa_current_score = format_score (insight_score d),
                       wa_priority = (if insight_score d < 60 then ''High'' else ''Medium'') \<rparr>)
       (filter (\<lambda>(tp, d). insight_score d < 70) topic_insights)"

record recommendation =
  rec_area :: string
  rec_action :: string
  rec_priority :: string

record overall_statistics =
  average_accuracy :: npfloat
  total_quizzes :: nat
  topics_covered :: nat
  topics_needing_improvement :: nat

record full_report =
  report_statistics :: overall_statistics
  report_topic_insights :: "(string \<times> topic_insight) list"
  report_weak_areas :: "weak_area list"
  report_recommendations :: "recommendation list"
  report_uncovered_topics :: "string list"
  report_generated_at :: string

datatype report =
    ErrorReport string string
  | Report full_report

definition generate_comprehensive_report :: "string \<Rightarrow> QuizSubmission list \<Rightarrow> report" where
  \<comment> \<open>The first argument is the text of \<open>datetime.now().isoformat()\<close>.  The outer
      \<open>try\<close> turns every exception into the error report of lines 165 to 170.  The
      values of the report are JSON serializable, so line 159 returns it.\<close>
  "generate_comprehensive_report now history =
     (if history = [] then ErrorReport ''No quiz history available'' now
      else
        (let (accuracies, processed_quizzes) = process_loop history ([], []);
             avg = (case np_mean accuracies of NaN \<Rightarrow> NaN | Num m \<Rightarrow> Num (py_round2 (m * 100)));
             unique_topics = length (remdups (map pq_topic processed_quizzes));
             topic_stats = topic_stats_of processed_quizzes
         in case insights_loop topic_stats of
              Inl e \<Rightarrow> ErrorReport (error_message e) now
            | Inr topic_insights \<Rightarrow>
                (let areas = weak_areas_of topic_insights
                 in Report
                      \<lparr> report_statistics =
                          \<lparr> average_accuracy = avg,
                            total_quizzes = length processed_quizzes,
                            topics_covered = unique_topics,
                            topics_needing_improvement = length areas \<rparr>,
                        report_topic_insights = topic_insights,
                        report_weak_areas = areas,
                        report_recommendations =
                          map (\<lambda>area. \<lparr> rec_area = wa_topic area,
                                         rec_action = ''Intensive practice needed in '' @ wa_topic area,
                                         rec_priority = wa_priority area \<rparr>) areas,
                        report_uncovered_topics =
                          filter (\<lambda>tp. tp \<notin> fst ` set topic_insights) NEET_TOPICS,
                        report_generated_at = now \<rparr>)))"


section \<open>Notions used in the statements\<close>

definition normalizes :: "(string \<Rightarrow> datetime option) \<Rightarrow> pydict \<Rightarrow> bool" where
  "normalizes fromisoformat r =
     (case preprocess_quiz_submission fromisoformat r of Inr q \<Rightarrow> True | Inl e \<Rightarrow> False)"

definition fails_validation :: "(string \<Rightarrow> datetime option) \<Rightarrow> pydict \<Rightarrow> bool" where
  \<comment> \<open>The record raises \<open>ValueError\<close>, the exception the batch loop catches.\<close>
  "fails_validation fromisoformat r =
     (case preprocess_quiz_submission fromisoformat r of
        Inl (ValueError msg) \<Rightarrow> True
      | _ \<Rightarrow> False)"

definition has_required_fields :: "pydict \<Rightarrow> bool" where
  "has_required_fields r = list_all (\<lambda>f. map_of r f \<noteq> None) required_fields"





definition mean :: "real list \<Rightarrow> real" where
  "mean xs = sum_list xs / real (length xs)"


definition processable :: "QuizSubmission \<Rightarrow> bool" where
  \<comment> \<open>The body of the loop of insights.py, lines 70 to 82, raises nothing on the quiz.\<close>
  "processable q =
     (case accuracy_fraction (accuracy q) of
        Inl e \<Rightarrow> False
      | Inr a \<Rightarrow> (case py_float (final_score q) of Inl e \<Rightarrow> False | Inr sc \<Rightarrow> True))"

subsection \<open>Example data\<close>

text \<open>
  The history of the specification's scenario: two submissions on Physiology (80% on
  the first day, 60% on the second) and one on Genetics (30% on the first day), as raw
  mappings and as the submissions they normalize to.
\<close>

definition example_raw :: "int \<Rightarrow> string \<Rightarrow> pyval \<Rightarrow> pyval \<Rightarrow> string \<Rightarrow> pydict" where
  "example_raw n tp sub_at acc fs =
     [(''id'', PInt n), (''quiz_id'', PInt 10), (''user_id'', PStr ''u1''),
      (''submitted_at'', sub_at), (''score'', PInt 32), (''accuracy'', acc),
      (''final_score'', PStr fs), (''quiz'', PDict [(''id'', PInt 10), (''topic'', PStr tp)])]"

definition example_quiz :: "int \<Rightarrow> string \<Rightarrow> datetime \<Rightarrow> string \<Rightarrow> string \<Rightarrow> QuizSubmission" where
  "example_quiz n tp sub_at acc fs =
     \<lparr> id_fld = PInt n, quiz_id = PInt 10, user_id = PStr ''u1'', submitted_at = sub_at,
       score = 32, accuracy = PStr acc, speed = PStr ''0'', final_score = PStr fs,
       correct_answers = PInt 0, incorrect_answers = PInt 0, total_questions = PInt 0,
       response_map = PDict [], topic = PStr tp \<rparr>"

definition day1 :: datetime where
  "day1 = Aware 1704103200000000"

definition day2 :: datetime where
  "day2 = Aware 1704189600000000"

definition scenario_raw :: "pydict list" where
  "scenario_raw =
     [example_raw 1 ''Physiology'' (PStr ''2024-01-01T10:00:00Z'') (PStr ''80%'') ''40'',
      example_raw 2 ''Physiology'' (PStr ''2024-01-02T10:00:00Z'') (PStr ''60%'') ''30'',
      example_raw 3 ''Genetics'' (PStr ''2024-01-01T10:00:00Z'') (PStr ''30%'') ''10'']"

definition scenario :: "QuizSubmission list" where
  "scenario =
     [example_quiz 1 ''Physiology'' day1 ''80%'' ''40'',
      example_quiz 2 ''Physiology'' day2 ''60%'' ''30'',
      example_quiz 3 ''Genetics'' day1 ''30%'' ''10'']"


definition bad_date_raw :: pydict where
  \<comment> \<open>Every required field is present, \<open>submitted_at\<close> is a number.\<close>
  "bad_date_raw = example_raw 5 ''Genetics'' (PInt 1704103200) (PStr ''30%'') ''10''"

definition no_accuracy_raw :: pydict where
  "no_accuracy_raw =
     [(''id'', PInt 6), (''quiz_id'', PInt 10), (''user_id'', PStr ''u1''),
      (''submitted_at'', PStr ''2024-01-01T10:00:00Z''), (''score'', PInt 32)]"

definition RankPredictor_init :: RankPredictor where
  \<comment> \<open>\<open>RankPredictor.__init__\<close>: a regressor that is not fitted, which raises when
      asked to predict.\<close>
  "RankPredictor_init =
     \<lparr> model_predict = (\<lambda>features. Inl (ValueError ''This RandomForestRegressor instance is not fitted yet'')),
       is_trained = False \<rparr>"

definition strong_performance :: StudentPerformance where
  \<comment> \<open>Three topics at 90%, no weak area.\<close>
  "strong_performance =
     \<lparr> sp_user_id = PStr ''u1'',
       quiz_history =
         [example_quiz 1 ''Physiology'' day1 ''90%'' ''45'',
          example_quiz 2 ''Genetics'' day1 ''90%'' ''45'',
          example_quiz 3 ''Reproduction'' day2 ''90%'' ''45''],
       topic_wise_accuracy =
         [(PStr ''Physiology'', 9 / 10), (PStr ''Genetics'', 9 / 10), (PStr ''Reproduction'', 9 / 10)],
       weak_areas = [],
       improvement_trends =
         [(PStr ''Physiology'', [9 / 10]), (PStr ''Genetics'', [9 / 10]), (PStr ''Reproduction'', [9 / 10])],
       predicted_rank = None,
       recommended_colleges = None \<rparr>"

definition scenario_performance :: StudentPerformance where
  "scenario_performance =
     \<lparr> sp_user_id = PStr ''u1'',
       quiz_history = scenario,
       topic_wise_accuracy = [(PStr ''Physiology'', 7 / 10), (PStr ''Genetics'', 3 / 10)],
       weak_areas = [PStr ''Genetics''],
       improvement_trends = [(PStr ''Physiology'', [8 / 10, 6 / 10]), (PStr ''Genetics'', [3 / 10])],
       predicted_rank = None,
       recommended_colleges = None \<rparr>"

section \<open>The Submission Normalizer\<close>

lemma check_required_find:
  "check_required fs raw =
     map_option (\<lambda>f. ValueError (''Missing required field: '' @ f))
       (find (\<lambda>f. map_of raw f = None) fs)"
  by (induction fs) auto



lemma scenario_normalizes:
  "process_historical_data fromisoformat_seconds scenario_raw = Inr scenario"
  by code_simp

text \<open>
  C6.  When a raw submission lacks at least one of the seven required fields,
  \<open>preprocess_quiz_submission\<close> raises a \<open>ValueError\<close> (the specification's
  ValidationError) whose message names a missing field: the first one, in the order of
  \<open>required_fields\<close>.
\<close>

theorem C6_missing_field_is_named:
  assumes "\<exists>f \<in> set required_fields. map_of raw f = None"
  shows "\<exists>f. find (\<lambda>f. map_of raw f = None) required_fields = Some f
             \<and> f \<in> set required_fields \<and> map_of raw f = None
             \<and> preprocess_quiz_submission fromisoformat raw
                 = Inl (ValueError (''Missing required field: '' @ f))"
proof -
  from assms obtain f where f: "find (\<lambda>f. map_of raw f = None) required_fields = Some f"
    by (cases "find (\<lambda>f. map_of raw f = None) required_fields") (auto simp: find_None_iff)
  then have "f \<in> set required_fields" "map_of raw f = None"
    by (auto simp: find_Some_iff)
  moreover have "preprocess_quiz_submission fromisoformat raw
                 = Inl (ValueError (''Missing required field: '' @ f))"
    by (simp add: preprocess_quiz_submission_def check_required_find f)
  ultimately show ?thesis using f by blast
qed

theorem C6_witness:
  "\<exists>f. find (\<lambda>f. map_of no_accuracy_raw f = None) required_fields = Some f
        \<and> f \<in> set required_fields \<and> map_of no_accuracy_raw f = None
        \<and> preprocess_quiz_submission fromisoformat_seconds no_accuracy_raw
            = Inl (ValueError (''Missing required field: '' @ f))"
proof -
  have "\<exists>f \<in> set required_fields. map_of no_accuracy_raw f = None"
    by (simp add: required_fields_def no_accuracy_raw_def)
  then show ?thesis by (rule C6_missing_field_is_named)
qed



lemma process_historical_data_aborts:
  assumes "preprocess_quiz_submission fromisoformat r = Inl e"
    and "\<forall>msg. e \<noteq> ValueError msg"
    and "\<forall>r' \<in> set before. normalizes fromisoformat r' \<or> fails_validation fromisoformat r'"
  shows "process_historical_data fromisoformat (before @ r # after) = Inl e"
  using assms
proof (induction before)
  case Nil
  then show ?case by (cases e) auto
next
  case (Cons b before)
  then have "process_historical_data fromisoformat (before @ r # after) = Inl e" by simp
  moreover from Cons.prems have "normalizes fromisoformat b \<or> fails_validation fromisoformat b"
    by simp
  ultimately show ?case
    by (auto simp: normalizes_def fails_validation_def split: sum.splits py_error.splits)
qed

text \<open>
  C10.  There is a batch whose records all have every required field and in which one
  record is malformed outside the missing-field check (its \<open>submitted_at\<close> is a
  number, not a string): \<open>process_historical_data\<close> does not skip that record, the
  \<open>AttributeError\<close> leaves the function and no record is returned, although the
  other three records normalize.
\<close>

theorem C10_batch_aborts:
  "list_all has_required_fields (scenario_raw @ [bad_date_raw])
   \<and> list_all (normalizes fromisoformat_seconds) scenario_raw
   \<and> preprocess_quiz_submission fromisoformat_seconds bad_date_raw
       = Inl (no_attribute ''int'' ''replace'')
   \<and> process_historical_data fromisoformat_seconds (scenario_raw @ [bad_date_raw])
       = Inl (no_attribute ''int'' ''replace'')"
  by code_simp

theorem C10_witness:
  "\<exists>batch e. list_all has_required_fields batch
      \<and> process_historical_data fromisoformat_seconds batch = Inl e
      \<and> e = no_attribute ''int'' ''replace''"
  using C10_batch_aborts by blast




section \<open>The Performance Aggregator\<close>

























section \<open>The Rank Estimator\<close>

text \<open>
  C8.  A predictor that is not trained answers every performance with the same
  placeholder, 5000, and raises nothing.
\<close>

theorem C8_untrained_rank_is_constant:
  assumes "\<not> is_trained self"
  shows "predict_rank self performance = Inr 5000"
  using assms by (simp add: predict_rank_def)

theorem C8_witness:
  "predict_rank RankPredictor_init strong_performance = Inr 5000"
proof -
  have "\<not> is_trained RankPredictor_init" by (simp add: RankPredictor_init_def)
  then show ?thesis by (rule C8_untrained_rank_is_constant)
qed

lemma max_loop_props:
  "max_loop best qs \<in> set (best # qs)
   \<and> (\<forall>q \<in> set (best # qs). date_key q \<le> date_key (max_loop best qs))"
proof (induction qs arbitrary: best)
  case Nil
  then show ?case by simp
next
  case (Cons q qs)
  from Cons.IH[of "if date_key best < date_key q then q else best"]
  show ?case by (auto split: if_splits)
qed

text \<open>
  C9.  When the history has a most recent submission and the final score of that
  submission is a number, the feature vector has four entries, in this order: the mean
  of the accuracies of \<open>topic_wise_accuracy\<close>, every topic counting once; the
  number of weak areas; the mean of last value minus first value over the trends of at
  least two points, the shorter trends left out; and that final score.  A mean over
  nothing is nan.
\<close>

theorem C9_feature_vector:
  assumes "max_by_date (quiz_history p) = Inr latest"
    and "py_float (final_score latest) = Inr fs"
  shows "\<exists>f1 f3. extract_features p = Inr [f1, Num (real (length (weak_areas p))), f3, Num fs]
           \<and> f1 = (if topic_wise_accuracy p = [] then NaN
                   else Num (mean (map snd (topic_wise_accuracy p))))
           \<and> f3 = (let deltas = map (\<lambda>trend. last trend - hd trend)
                                   (filter (\<lambda>trend. 2 \<le> length trend)
                                      (map snd (improvement_trends p)))
                   in if deltas = [] then NaN else Num (mean deltas))
           \<and> latest \<in> set (quiz_history p)
           \<and> (\<forall>q \<in> set (quiz_history p). date_key q \<le> date_key latest)"
proof -
  from assms(1) obtain q rest where h: "quiz_history p = q # rest"
    and l: "latest = max_loop q rest"
    by (auto simp: max_by_date_def split: list.splits if_splits)
  from max_loop_props[of q rest] h l
  have m: "latest \<in> set (quiz_history p)"
    "\<forall>q \<in> set (quiz_history p). date_key q \<le> date_key latest"
    by simp_all
  have len: "filter (\<lambda>trend. length trend > 1) xs = filter (\<lambda>trend. 2 \<le> length trend) xs"
    for xs :: "real list list"
    by (rule filter_cong) auto
  have "extract_features p
        = Inr [np_mean (map snd (topic_wise_accuracy p)), Num (real (length (weak_areas p))),
               np_mean (map (\<lambda>trend. last trend - hd trend)
                          (filter (\<lambda>trend. 2 \<le> length trend) (map snd (improvement_trends p)))),
               Num fs]"
    unfolding extract_features_def Let_def len using assms by simp
  with m show ?thesis
    by (simp add: np_mean_def mean_def Let_def)
qed

theorem C9_witness:
  "extract_features scenario_performance = Inr [Num (1 / 2), Num 1, Num (- (1 / 5)), Num 30]
   \<and> (\<exists>f1 f3. extract_features scenario_performance
                 = Inr [f1, Num (real (length (weak_areas scenario_performance))), f3, Num 30]
           \<and> f1 = (if topic_wise_accuracy scenario_performance = [] then NaN
                   else Num (mean (map snd (topic_wise_accuracy scenario_performance))))
           \<and> f3 = (let deltas = map (\<lambda>trend. last trend - hd trend)
                                   (filter (\<lambda>trend. 2 \<le> length trend)
                                      (map snd (improvement_trends scenario_performance)))
                   in if deltas = [] then NaN else Num (mean deltas))
           \<and> example_quiz 2 ''Physiology'' day2 ''60%'' ''30'' \<in> set (quiz_history scenario_performance)
           \<and> (\<forall>q \<in> set (quiz_history scenario_performance).
                 date_key q \<le> date_key (example_quiz 2 ''Physiology'' day2 ''60%'' ''30'')))"
proof -
  have a: "max_by_date (quiz_history scenario_performance)
           = Inr (example_quiz 2 ''Physiology'' day2 ''60%'' ''30'')"
    by code_simp
  have b: "py_float (final_score (example_quiz 2 ''Physiology'' day2 ''60%'' ''30'')) = Inr 30"
    by code_simp
  have c: "extract_features scenario_performance
           = Inr [Num (1 / 2), Num 1, Num (- (1 / 5)), Num 30]"
    by code_simp
  from c C9_feature_vector[OF a b] show ?thesis by (rule conjI)
qed

section \<open>The Insight Synthesizer\<close>

lemma insights_loop_raises:
  "ts \<noteq> [] \<Longrightarrow>
   insights_loop ts = Inl (no_attribute ''InsightGenerator'' ''_categorize_performance'')"
  by (cases ts) (auto simp: self_categorize_performance_def)

lemma stats_add_nonempty: "stats_add tp a sc d \<noteq> []"
  by (cases d) (auto split: if_splits)

lemma foldl_stats_nonempty:
  "d \<noteq> [] \<or> pqs \<noteq> [] \<Longrightarrow>
   foldl (\<lambda>topic_stats quiz.
            stats_add (pq_topic quiz) (pq_accuracy quiz) (pq_score quiz) topic_stats) d pqs \<noteq> []"
  by (induction pqs arbitrary: d) (auto simp: stats_add_nonempty)

lemma process_loop_nonempty:
  "pqs \<noteq> [] \<or> (\<exists>q \<in> set h. processable q) \<Longrightarrow> snd (process_loop h (accs, pqs)) \<noteq> []"
  by (induction h arbitrary: accs pqs) (auto simp: processable_def split: sum.splits)

text \<open>
  C1 does not hold of the code.  Whenever the history has a quiz that the report can
  process, the first topic reaches the call \<open>self._categorize_performance\<close>, a method
  the class does not have: the report is the error marker with the text of the
  \<open>AttributeError\<close>, and it has no \<open>topic_insights\<close> at all.
\<close>

theorem C1_report_is_error_marker:
  assumes "\<exists>q \<in> set history. processable q"
  shows "generate_comprehensive_report now history
         = ErrorReport (quoted ''InsightGenerator'' @ '' object has no attribute ''
                          @ quoted ''_categorize_performance'') now"
proof -
  from assms have ne: "history \<noteq> []" by auto
  obtain accs pqs where pl: "process_loop history ([], []) = (accs, pqs)"
    by (cases "process_loop history ([], [])")
  with process_loop_nonempty[of "[]" history "[]"] assms have "pqs \<noteq> []" by simp
  then have "topic_stats_of pqs \<noteq> []"
    by (simp add: topic_stats_of_def foldl_stats_nonempty)
  then show ?thesis using ne pl
    by (simp add: generate_comprehensive_report_def insights_loop_raises no_attribute_def)
qed

theorem C1_witness:
  "generate_comprehensive_report ''2024-01-03T09:00:00'' scenario
   = ErrorReport (quoted ''InsightGenerator'' @ '' object has no attribute ''
                    @ quoted ''_categorize_performance'') ''2024-01-03T09:00:00''
   \<and> categorize_performance (3 / 10) = ''Needs Improvement''"
proof -
  have "\<exists>q \<in> set scenario. processable q" by code_simp
  from C1_report_is_error_marker[OF this] show ?thesis
    by (simp add: categorize_performance_def GOOD_PERFORMANCE_THRESHOLD_def
          WEAK_PERFORMANCE_THRESHOLD_def)
qed

text \<open>
  C5.  On the empty history \<open>analyze_student_performance\<close> raises (a \<open>ValueError\<close>,
  the specification's EmptyHistoryError), and \<open>generate_comprehensive_report\<close> raises
  nothing: it returns the report that holds an error marker and the time of generation
  only.
\<close>

theorem C5_empty_history_policies:
  "analyze_student_performance [] = Inl (ValueError ''Quiz history is empty'')
   \<and> generate_comprehensive_report now [] = ErrorReport ''No quiz history available'' now"
  by (simp add: analyze_student_performance_def generate_comprehensive_report_def)

theorem C5_witness:
  "analyze_student_performance [] = Inl (ValueError ''Quiz history is empty'')
   \<and> generate_comprehensive_report ''2024-01-03T09:00:00'' []
       = ErrorReport ''No quiz history available'' ''2024-01-03T09:00:00''"
  by (rule C5_empty_history_policies)

end
